theory Spec2Isabelle
  imports Main "HOL-Library.Word"
begin

section \<open>Values of the Go program\<close>

text \<open>
  The adapter of \<^verbatim>\<open>dynamodb.go\<close> maps a durable-state record of an actor to an item of
  a DynamoDB table and back. Go's \<^verbatim>\<open>uint64\<close> and \<^verbatim>\<open>int64\<close> are 64-bit words (an
  \<^verbatim>\<open>int64\<close> is read with \<open>sint\<close>), a \<^verbatim>\<open>string\<close> is a list of bytes (\<open>char\<close>), a
  \<^verbatim>\<open>[]byte\<close> is a list of 8-bit words.
\<close>

type_synonym uint64 = "64 word"
type_synonym int64 = "64 word"
type_synonym bytes = "8 word list"

text \<open>
  A Go call either returns or panics. The two panics of this program are the
  dereference of a nil client and a failed unchecked type assertion.
\<close>

datatype panic = NilDereference | InterfaceConversion

datatype 'a outcome = Returned 'a | Panic panic

fun bind_outcome :: "'a outcome \<Rightarrow> ('a \<Rightarrow> 'b outcome) \<Rightarrow> 'b outcome" where
  "bind_outcome (Returned x) f = f x"
| "bind_outcome (Panic p) f = Panic p"

section \<open>strconv: base 10, 64 bits\<close>

text \<open>
  \<^verbatim>\<open>strconv.ParseUint(s, 10, 64)\<close> and \<^verbatim>\<open>strconv.ParseInt(s, 10, 64)\<close> of Go's standard
  library, with the base and the bit size of the two call sites fixed. Both return a
  value and an error; on a syntax error the value is 0, on a range error it is the
  largest magnitude of the size and sign.
\<close>

datatype num_error = ErrSyntax | ErrRange

definition maxUint64 :: uint64 where
  "maxUint64 = - 1"

text \<open>
  The loop of \<^verbatim>\<open>ParseUint\<close> over the bytes of \<open>s\<close>, with the accumulator \<open>n\<close>:
  a byte that is no digit of the base ends it with \<open>(0, ErrSyntax)\<close> (a letter has a
  digit value of 10 or more, which base 10 refuses like any other byte; the underscore
  is a digit separator for base 0 only), an accumulator at or above the cutoff
  (\<open>maxUint64 / 10 + 1\<close>) or a wrapping addition ends it with \<open>(maxUint64, ErrRange)\<close>.
\<close>

fun ParseUint_loop :: "uint64 \<Rightarrow> string \<Rightarrow> uint64 \<times> num_error option" where
  "ParseUint_loop n [] = (n, None)"
| "ParseUint_loop n (c # cs) =
     (if 48 \<le> (of_char c :: nat) \<and> (of_char c :: nat) \<le> 57 then
        (let d = (of_nat (of_char c - 48) :: uint64) in
         if n \<ge> maxUint64 div 10 + 1 then (maxUint64, Some ErrRange)
         else let n10 = n * 10; n1 = n10 + d in
           if n1 < n10 \<or> n1 > maxUint64 then (maxUint64, Some ErrRange)
           else ParseUint_loop n1 cs)
      else (0, Some ErrSyntax))"

definition ParseUint :: "string \<Rightarrow> uint64 \<times> num_error option" where
  "ParseUint s = (if s = [] then (0, Some ErrSyntax) else ParseUint_loop 0 s)"

definition ParseInt :: "string \<Rightarrow> int64 \<times> num_error option" where
  "ParseInt s0 =
     (if s0 = [] then (0, Some ErrSyntax)
      else
        let neg = (hd s0 = CHR ''-'');
            s = (if hd s0 = CHR ''+'' \<or> hd s0 = CHR ''-'' then tl s0 else s0);
            (un, err) = ParseUint s;
            cutoff = (push_bit 63 1 :: uint64)
        in if err = Some ErrSyntax then (0, err)
           else if \<not> neg \<and> un \<ge> cutoff then (cutoff - 1, Some ErrRange)
           else if neg \<and> un > cutoff then (- cutoff, Some ErrRange)
           else (if neg then - un else un, None))"

section \<open>Attribute values, items and the table service\<close>

text \<open>
  \<^verbatim>\<open>types.AttributeValue\<close> is an interface with one member type per DynamoDB type. An
  item (\<^verbatim>\<open>map[string]types.AttributeValue\<close>) is kept as an association list in the order
  of the map literal; \<open>m[k]\<close> is \<open>map_of m k\<close>, where \<open>None\<close> is the nil interface that
  indexing a Go map with a missing key gives.
\<close>

datatype AttributeValue =
    AttributeValueMemberS string
  | AttributeValueMemberN string
  | AttributeValueMemberB bytes
  | AttributeValueMemberBOOL bool
  | AttributeValueMemberNULL

type_synonym item = "(string \<times> AttributeValue) list"

text \<open>
  The service behind the client, as far as the three calls of the adapter reach it: a
  table has one partition-key attribute of string type and at most one item per key
  value. \<^verbatim>\<open>PutItem\<close> replaces the whole item under the key of the item it is given and
  refuses an item without a string under the key attribute; \<^verbatim>\<open>GetItem\<close> refuses a key
  that is not exactly the table's key attribute. Every call fails when the service
  cannot be reached or the table does not exist. Cancellation through the context and
  the validation of attribute contents are not part of the model.
\<close>

datatype backend_error = RequestFailure | ResourceNotFoundException | ValidationException

record table =
  key_attr :: string
  rows :: "string \<rightharpoonup> item"

record backend =
  reachable :: bool
  tables :: "string \<rightharpoonup> table"

definition PutItem :: "backend \<Rightarrow> string \<Rightarrow> item \<Rightarrow> backend \<times> backend_error option" where
  "PutItem be tname it =
     (if \<not> reachable be then (be, Some RequestFailure)
      else case tables be tname of
        None \<Rightarrow> (be, Some ResourceNotFoundException)
      | Some t \<Rightarrow>
          (case map_of it (key_attr t) of
             Some (AttributeValueMemberS k) \<Rightarrow>
               (be\<lparr>tables := (tables be)(tname \<mapsto> t\<lparr>rows := (rows t)(k \<mapsto> it)\<rparr>)\<rparr>, None)
           | _ \<Rightarrow> (be, Some ValidationException)))"

definition GetItem :: "backend \<Rightarrow> string \<Rightarrow> item \<Rightarrow> item option \<times> backend_error option" where
  "GetItem be tname key =
     (if \<not> reachable be then (None, Some RequestFailure)
      else case tables be tname of
        None \<Rightarrow> (None, Some ResourceNotFoundException)
      | Some t \<Rightarrow>
          (if set (map fst key) = {key_attr t} then
             (case map_of key (key_attr t) of
                Some (AttributeValueMemberS k) \<Rightarrow> (rows t k, None)
              | _ \<Rightarrow> (None, Some ValidationException))
           else (None, Some ValidationException)))"

definition ListTables :: "backend \<Rightarrow> backend_error option" where
  "ListTables be = (if reachable be then None else Some RequestFailure)"

section \<open>Protocol buffers, configuration and errors\<close>

text \<open>
  \<^verbatim>\<open>anypb.Any\<close> is the envelope message: a type URL and the bytes of the inner message.
  A message of any other Go type is kept by the name of its type and its content.
\<close>

record Any =
  type_url :: string
  any_value :: bytes

datatype message = AnyMessage Any | OtherMessage string bytes

text \<open>A message type of the registry; \<open>New\<close> is the empty value of \<^verbatim>\<open>mt.New().Interface()\<close>.\<close>

record MessageType =
  New :: message

datatype proto_error = InvalidWireFormat | InvalidUTF8 | RequiredNotSet

datatype config_error = SharedConfigLoadError

record aws_config =
  region :: string

datatype Client = NewFromConfig aws_config

datatype error =
    ConfigError config_error
  | BackendError backend_error
  | NotFound
  | ProtoError proto_error
  | FailedToUnpack string
  | Errorf string error

text \<open>
  What the adapter gets from the libraries it links against and from the process it
  runs in, taken as parameters:
  \<^item> \<open>LoadDefaultConfig\<close>: \<^verbatim>\<open>config.LoadDefaultConfig\<close> with the region option;
  \<^item> \<open>GlobalTypes\<close>: the message types of \<^verbatim>\<open>protoregistry.GlobalTypes\<close> by full name;
    a name under which nothing is registered is answered with \<^verbatim>\<open>protoregistry.NotFound\<close>
    (the enums and extensions of the registry, whose names the message lookup refuses
    with an error of its own, are left out);
  \<^item> \<open>Marshal\<close> and \<open>Unmarshal\<close>: \<^verbatim>\<open>proto.Marshal\<close> on the \<^verbatim>\<open>*anypb.Any\<close> of the state
    (nil is \<open>None\<close>) and \<^verbatim>\<open>proto.Unmarshal\<close>, which fills the message it is given;
  \<^item> \<open>uint64_text\<close> and \<open>int64_text\<close>: the text an integer becomes in the \<^verbatim>\<open>Value\<close> of an
    attribute. The source hands the integers of the state to the string-typed \<^verbatim>\<open>Value\<close>
    fields as they are, without writing a conversion, so the text is left open.
\<close>

record runtime =
  LoadDefaultConfig :: "string \<Rightarrow> aws_config \<times> config_error option"
  GlobalTypes :: "string \<rightharpoonup> MessageType"
  Marshal :: "Any option \<Rightarrow> bytes \<times> proto_error option"
  Unmarshal :: "bytes \<Rightarrow> message \<Rightarrow> message \<times> proto_error option"
  uint64_text :: "uint64 \<Rightarrow> string"
  int64_text :: "int64 \<Rightarrow> string"

text \<open>
  \<^verbatim>\<open>egopb.DurableState\<close>. The adapter receives a pointer (\<open>None\<close> is nil) and reads it
  through the generated getters, which answer the zero value on a nil receiver.
\<close>

record DurableState =
  pb_PersistenceId :: string
  pb_VersionNumber :: uint64
  pb_ResultingState :: "Any option"
  pb_Timestamp :: int64
  pb_Shard :: uint64

definition GetPersistenceId :: "DurableState option \<Rightarrow> string" where
  "GetPersistenceId x = (case x of None \<Rightarrow> [] | Some s \<Rightarrow> pb_PersistenceId s)"

definition GetVersionNumber :: "DurableState option \<Rightarrow> uint64" where
  "GetVersionNumber x = (case x of None \<Rightarrow> 0 | Some s \<Rightarrow> pb_VersionNumber s)"

definition GetResultingState :: "DurableState option \<Rightarrow> Any option" where
  "GetResultingState x = (case x of None \<Rightarrow> None | Some s \<Rightarrow> pb_ResultingState s)"

definition GetTimestamp :: "DurableState option \<Rightarrow> int64" where
  "GetTimestamp x = (case x of None \<Rightarrow> 0 | Some s \<Rightarrow> pb_Timestamp s)"

definition GetShard :: "DurableState option \<Rightarrow> uint64" where
  "GetShard x = (case x of None \<Rightarrow> 0 | Some s \<Rightarrow> pb_Shard s)"

section \<open>The adapter\<close>

record StateItem =
  PersistenceID :: string
  VersionNumber :: uint64
  StatePayload :: bytes
  StateManifest :: string
  Timestamp :: int64
  ShardNumber :: uint64

definition tableName :: string where
  "tableName = ''states_store''"

record DynamoDurableStore =
  client :: "Client option"

text \<open>
  A method with a value receiver runs its body on a copy of the caller's value: whatever
  the body assigns to the receiver, the caller's value after the call is the one before
  it. \<open>value_receiver\<close> turns a body, which returns the final value of its copy with its
  result, into the call as the caller sees it.
\<close>

definition value_receiver :: "('s \<Rightarrow> 's \<times> 'r) \<Rightarrow> 's \<Rightarrow> 's \<times> 'r" where
  "value_receiver body d = (d, snd (body d))"

text \<open>
  \<^verbatim>\<open>Connect\<close> is declared on \<^verbatim>\<open>(d DynamoDurableStore)\<close>. \<open>Connect_body\<close> is its body on the
  copy \<open>d\<close>; \<open>Connect\<close> is the call, returning the caller's store after it and the error.
\<close>

definition Connect_body :: "runtime \<Rightarrow> DynamoDurableStore \<Rightarrow> DynamoDurableStore \<times> error option" where
  "Connect_body rt d =
     (case LoadDefaultConfig rt ''us-west-2'' of
        (cfg, Some err) \<Rightarrow> (d, Some (Errorf ''unable to load SDK config, '' (ConfigError err)))
      | (cfg, None) \<Rightarrow> (d\<lparr>client := Some (NewFromConfig cfg)\<rparr>, None))"

definition Connect :: "runtime \<Rightarrow> DynamoDurableStore \<Rightarrow> DynamoDurableStore \<times> error option" where
  "Connect rt d = value_receiver (Connect_body rt) d"

definition Disconnect :: "DynamoDurableStore \<Rightarrow> error option" where
  "Disconnect d = None"

definition Ping :: "DynamoDurableStore \<Rightarrow> backend \<Rightarrow> error option outcome" where
  "Ping d be =
     (case client d of
        None \<Rightarrow> Panic NilDereference
      | Some c \<Rightarrow>
          (case ListTables be of
             Some err \<Rightarrow> Returned (Some (Errorf ''unable to connect to DynamoDB, '' (BackendError err)))
           | None \<Rightarrow> Returned None))"

text \<open>
  The item literal of \<^verbatim>\<open>WriteState\<close>. The error of \<^verbatim>\<open>proto.Marshal\<close> is assigned to the
  blank identifier. The manifest is the full name of the descriptor of the Go type of
  \<^verbatim>\<open>GetResultingState()\<close>, which is \<^verbatim>\<open>*anypb.Any\<close> whatever the state holds.
\<close>

definition Any_FullName :: string where
  "Any_FullName = ''google.protobuf.Any''"

definition WriteState_item :: "runtime \<Rightarrow> DurableState option \<Rightarrow> item" where
  "WriteState_item rt state =
     (let bytea = fst (Marshal rt (GetResultingState state));
          manifest = Any_FullName
      in [(''PersistenceID'', AttributeValueMemberS (GetPersistenceId state)),
          (''VersionNumber'', AttributeValueMemberN (uint64_text rt (GetVersionNumber state))),
          (''StatePayload'', AttributeValueMemberB bytea),
          (''StateManifest'', AttributeValueMemberS manifest),
          (''Timestamp'', AttributeValueMemberS (int64_text rt (GetTimestamp state))),
          (''ShardNumber'', AttributeValueMemberS (uint64_text rt (GetShard state)))])"

definition WriteState ::
  "runtime \<Rightarrow> DynamoDurableStore \<Rightarrow> backend \<Rightarrow> DurableState option \<Rightarrow> backend \<times> error option outcome" where
  "WriteState rt d be state =
     (let it = WriteState_item rt state in
      case client d of
        None \<Rightarrow> (be, Panic NilDereference)
      | Some c \<Rightarrow>
          (case PutItem be tableName it of
             (be', Some err) \<Rightarrow>
               (be', Returned (Some (Errorf ''failed to upsert state into the dynamodb: '' (BackendError err))))
           | (be', None) \<Rightarrow> (be', Returned None)))"

text \<open>The unchecked type assertions \<^verbatim>\<open>x.(*types.AttributeValueMemberT).Value\<close>.\<close>

definition assert_MemberS :: "AttributeValue option \<Rightarrow> string outcome" where
  "assert_MemberS x = (case x of Some (AttributeValueMemberS v) \<Rightarrow> Returned v | _ \<Rightarrow> Panic InterfaceConversion)"

definition assert_MemberN :: "AttributeValue option \<Rightarrow> string outcome" where
  "assert_MemberN x = (case x of Some (AttributeValueMemberN v) \<Rightarrow> Returned v | _ \<Rightarrow> Panic InterfaceConversion)"

definition assert_MemberB :: "AttributeValue option \<Rightarrow> bytes outcome" where
  "assert_MemberB x = (case x of Some (AttributeValueMemberB v) \<Rightarrow> Returned v | _ \<Rightarrow> Panic InterfaceConversion)"

definition parseDynamoUint64 :: "AttributeValue option \<Rightarrow> uint64 outcome" where
  "parseDynamoUint64 element =
     bind_outcome (assert_MemberN element) (\<lambda>v. Returned (fst (ParseUint v)))"

definition parseDynamoInt64 :: "AttributeValue option \<Rightarrow> int64 outcome" where
  "parseDynamoInt64 element =
     bind_outcome (assert_MemberN element) (\<lambda>v. Returned (fst (ParseInt v)))"

definition toProto :: "runtime \<Rightarrow> string \<Rightarrow> bytes \<Rightarrow> Any option \<times> error option" where
  "toProto rt manifest bytea =
     (case GlobalTypes rt manifest of
        None \<Rightarrow> (None, Some NotFound)
      | Some mt \<Rightarrow>
          (case Unmarshal rt bytea (New mt) of
             (pm, Some err) \<Rightarrow> (None, Some (ProtoError err))
           | (pm, None) \<Rightarrow>
               (case pm of
                  AnyMessage cast \<Rightarrow> (Some cast, None)
                | OtherMessage _ _ \<Rightarrow> (None, Some (FailedToUnpack manifest)))))"

definition GetLatestState_key :: "string \<Rightarrow> item" where
  "GetLatestState_key persistenceID = [(''PK'', AttributeValueMemberS persistenceID)]"

definition GetLatestState ::
  "runtime \<Rightarrow> DynamoDurableStore \<Rightarrow> backend \<Rightarrow> string \<Rightarrow> (DurableState option \<times> error option) outcome" where
  "GetLatestState rt d be persistenceID =
     (let key = GetLatestState_key persistenceID in
      case client d of
        None \<Rightarrow> Panic NilDereference
      | Some c \<Rightarrow>
          (case GetItem be tableName key of
             (_, Some err) \<Rightarrow>
               Returned (None, Some (Errorf ''failed to fetch the latest state from the dynamodb: '' (BackendError err)))
           | (None, None) \<Rightarrow> Returned (None, None)
           | (Some resp_Item, None) \<Rightarrow>
               bind_outcome (parseDynamoUint64 (map_of resp_Item ''VersionNumber'')) (\<lambda>version.
               bind_outcome (assert_MemberB (map_of resp_Item ''StatePayload'')) (\<lambda>payload.
               bind_outcome (assert_MemberS (map_of resp_Item ''StateManifest'')) (\<lambda>manifest.
               bind_outcome (parseDynamoInt64 (map_of resp_Item ''Timestamp'')) (\<lambda>timestamp.
               bind_outcome (parseDynamoUint64 (map_of resp_Item ''ShardNumber'')) (\<lambda>shard.
                 let item = \<lparr>PersistenceID = persistenceID, VersionNumber = version,
                             StatePayload = payload, StateManifest = manifest,
                             Timestamp = timestamp, ShardNumber = shard\<rparr>
                 in case toProto rt (StateManifest item) (StatePayload item) of
                      (_, Some err) \<Rightarrow>
                        Returned (None, Some (Errorf ''failed to unmarshal the durable state: '' err))
                    | (state, None) \<Rightarrow>
                        Returned (Some \<lparr>pb_PersistenceId = persistenceID,
                                        pb_VersionNumber = VersionNumber item,
                                        pb_ResultingState = state,
                                        pb_Timestamp = Timestamp item,
                                        pb_Shard = ShardNumber item\<rparr>, None))))))))"

section \<open>A sample environment\<close>

text \<open>
  One concrete environment, used to run the definitions above on explicit inputs: decimal
  text for the integers, a registry with the envelope type and one other message type,
  and the wire format of \<^verbatim>\<open>anypb.Any\<close> for fields shorter than 128 bytes (field 1, the
  type URL, and field 2, the value, each as tag, length and content; an empty field is
  left out).
\<close>

fun decimal :: "nat \<Rightarrow> string" where
  "decimal n =
     (if n < 10 then [char_of (48 + n)] else decimal (n div 10) @ [char_of (48 + n mod 10)])"

declare decimal.simps [simp del]

definition sample_uint64_text :: "uint64 \<Rightarrow> string" where
  "sample_uint64_text u = decimal (unat u)"

definition sample_int64_text :: "int64 \<Rightarrow> string" where
  "sample_int64_text i =
     (if sint i < 0 then CHR ''-'' # decimal (nat (- sint i)) else decimal (nat (sint i)))"

definition sample_field :: "8 word \<Rightarrow> bytes \<Rightarrow> bytes" where
  "sample_field tag bs = (if bs = [] then [] else tag # of_nat (length bs) # bs)"

definition sample_Marshal :: "Any option \<Rightarrow> bytes \<times> proto_error option" where
  "sample_Marshal m =
     (case m of
        None \<Rightarrow> ([], None)
      | Some a \<Rightarrow>
          (sample_field 10 (map (\<lambda>c. of_nat (of_char c)) (type_url a)) @
           sample_field 18 (any_value a), None))"

fun sample_decode :: "bytes \<Rightarrow> Any \<Rightarrow> Any option" where
  "sample_decode [] a = Some a"
| "sample_decode [t] a = None"
| "sample_decode (t # n # bs) a =
     (if unat n < 128 \<and> unat n \<le> length bs then
        (if t = 10 then
           sample_decode (drop (unat n) bs)
             (a\<lparr>type_url := map (\<lambda>b. char_of (unat b)) (take (unat n) bs)\<rparr>)
         else if t = 18 then
           sample_decode (drop (unat n) bs) (a\<lparr>any_value := take (unat n) bs\<rparr>)
         else None)
      else None)"

definition sample_Unmarshal :: "bytes \<Rightarrow> message \<Rightarrow> message \<times> proto_error option" where
  "sample_Unmarshal bs m =
     (case m of
        AnyMessage a \<Rightarrow>
          (case sample_decode bs a of
             Some a' \<Rightarrow> (AnyMessage a', None)
           | None \<Rightarrow> (m, Some InvalidWireFormat))
      | OtherMessage name _ \<Rightarrow> (OtherMessage name bs, None))"

definition sample_runtime :: runtime where
  "sample_runtime =
     \<lparr>LoadDefaultConfig = (\<lambda>r. (\<lparr>region = r\<rparr>, None)),
      GlobalTypes =
        [Any_FullName \<mapsto> \<lparr>New = AnyMessage \<lparr>type_url = [], any_value = []\<rparr>\<rparr>,
         ''sample.Account'' \<mapsto> \<lparr>New = OtherMessage ''sample.Account'' []\<rparr>],
      Marshal = sample_Marshal,
      Unmarshal = sample_Unmarshal,
      uint64_text = sample_uint64_text,
      int64_text = sample_int64_text\<rparr>"

text \<open>The same environment with a serializer that fails and hands back no bytes.\<close>

definition failing_runtime :: runtime where
  "failing_runtime = sample_runtime\<lparr>Marshal := (\<lambda>m. ([], Some InvalidUTF8))\<rparr>"

definition sample_store :: DynamoDurableStore where
  "sample_store = \<lparr>client = Some (NewFromConfig \<lparr>region = ''us-west-2''\<rparr>)\<rparr>"

definition unconnected_store :: DynamoDurableStore where
  "unconnected_store = \<lparr>client = None\<rparr>"

text \<open>
  A reachable service with the table of the adapter, its partition key named \<open>k\<close>,
  holding the rows \<open>r\<close>.
\<close>

definition sample_backend :: "string \<Rightarrow> (string \<rightharpoonup> item) \<Rightarrow> backend" where
  "sample_backend k r = \<lparr>reachable = True, tables = [tableName \<mapsto> \<lparr>key_attr = k, rows = r\<rparr>]\<rparr>"

text \<open>
  The scenario of the specification: actor \<open>acct-42\<close>, version 1, an account with balance
  100 in the envelope, timestamp 1000, shard 3.
\<close>

definition sample_payload :: Any where
  "sample_payload = \<lparr>type_url = ''type.googleapis.com/sample.Account'', any_value = [8, 100]\<rparr>"

definition sample_state :: DurableState where
  "sample_state =
     \<lparr>pb_PersistenceId = ''acct-42'', pb_VersionNumber = 1,
      pb_ResultingState = Some sample_payload, pb_Timestamp = 1000, pb_Shard = 3\<rparr>"

text \<open>
  A stored item with every attribute of the type the read path asserts, under a table
  keyed by \<open>PK\<close>; \<open>v\<close>, \<open>t\<close> and \<open>s\<close> are the texts of the three numbers.
\<close>

definition typed_item :: "string \<Rightarrow> string \<Rightarrow> string \<Rightarrow> item" where
  "typed_item v t s =
     [(''PK'', AttributeValueMemberS ''acct-42''),
      (''VersionNumber'', AttributeValueMemberN v),
      (''StatePayload'', AttributeValueMemberB (fst (sample_Marshal (Some sample_payload)))),
      (''StateManifest'', AttributeValueMemberS Any_FullName),
      (''Timestamp'', AttributeValueMemberN t),
      (''ShardNumber'', AttributeValueMemberN s)]"

text \<open>
  The item that \<^verbatim>\<open>WriteState\<close> builds for the scenario, and an item of the expected types
  whose three numbers are out of range for their fields or no integers.
\<close>

definition written_item :: item where
  "written_item = WriteState_item sample_runtime (Some sample_state)"

definition malformed_item :: item where
  "malformed_item = typed_item ''18446744073709551616'' ''-9223372036854775809'' ''1.5''"

text \<open>An item of the expected types but for its payload, which is missing.\<close>

definition item_without_payload :: item where
  "item_without_payload = filter (\<lambda>(k, v). k \<noteq> ''StatePayload'') (typed_item ''1'' ''1000'' ''3'')"

section \<open>Predicates of the properties\<close>

text \<open>
  The attribute types that the read path asserts without checking: a number for the
  version, the timestamp and the shard, a binary for the payload, a string for the
  manifest.
\<close>

definition expected_types :: "item \<Rightarrow> bool" where
  "expected_types it \<longleftrightarrow>
     (case map_of it ''VersionNumber'' of Some (AttributeValueMemberN _) \<Rightarrow> True | _ \<Rightarrow> False) \<and>
     (case map_of it ''StatePayload'' of Some (AttributeValueMemberB _) \<Rightarrow> True | _ \<Rightarrow> False) \<and>
     (case map_of it ''StateManifest'' of Some (AttributeValueMemberS _) \<Rightarrow> True | _ \<Rightarrow> False) \<and>
     (case map_of it ''Timestamp'' of Some (AttributeValueMemberN _) \<Rightarrow> True | _ \<Rightarrow> False) \<and>
     (case map_of it ''ShardNumber'' of Some (AttributeValueMemberN _) \<Rightarrow> True | _ \<Rightarrow> False)"

text \<open>
  The classes of text by which the results of the numeric decoders are stated. The
  magnitude of a text is the decimal value of its leading run of digits. An unsigned
  text has a syntax error when it is empty or has a byte that is no decimal digit, unless
  the digits before that byte already exceed 64 bits. A signed text is an optional
  \<open>+\<close> or \<open>-\<close> followed by an unsigned text.
\<close>

definition is_digit :: "char \<Rightarrow> bool" where
  "is_digit c \<longleftrightarrow> 48 \<le> (of_char c :: nat) \<and> (of_char c :: nat) \<le> 57"

primrec decimal_from :: "nat \<Rightarrow> string \<Rightarrow> nat" where
  "decimal_from acc [] = acc"
| "decimal_from acc (c # cs) = decimal_from (10 * acc + (of_char c - 48)) cs"

definition magnitude :: "string \<Rightarrow> nat" where
  "magnitude s = decimal_from 0 (takeWhile is_digit s)"

definition uint_syntax_error :: "string \<Rightarrow> bool" where
  "uint_syntax_error s \<longleftrightarrow>
     (s = [] \<or> \<not> list_all is_digit s) \<and> magnitude s < 18446744073709551616"

definition unsigned_part :: "string \<Rightarrow> string" where
  "unsigned_part s =
     (case s of [] \<Rightarrow> [] | c # cs \<Rightarrow> if c = CHR ''+'' \<or> c = CHR ''-'' then cs else s)"

definition minus_sign :: "string \<Rightarrow> bool" where
  "minus_sign s = (case s of [] \<Rightarrow> False | c # cs \<Rightarrow> c = CHR ''-'')"

definition int_syntax_error :: "string \<Rightarrow> bool" where
  "int_syntax_error s = uint_syntax_error (unsigned_part s)"


section \<open>The numeric decoders\<close>

lemma ParseUint_loop_syntax:
  "snd (ParseUint_loop n s) = Some ErrSyntax \<Longrightarrow> fst (ParseUint_loop n s) = 0"
  by (induction s arbitrary: n) (auto simp: Let_def split: if_splits)

lemma ParseUint_loop_range:
  "snd (ParseUint_loop n s) = Some ErrRange \<Longrightarrow> fst (ParseUint_loop n s) = maxUint64"
  by (induction s arbitrary: n) (auto simp: Let_def split: if_splits)

lemma ParseUint_syntax: "snd (ParseUint s) = Some ErrSyntax \<Longrightarrow> fst (ParseUint s) = 0"
  by (simp add: ParseUint_def ParseUint_loop_syntax split: if_splits)

lemma ParseUint_range: "snd (ParseUint s) = Some ErrRange \<Longrightarrow> fst (ParseUint s) = maxUint64"
  by (simp add: ParseUint_def ParseUint_loop_range split: if_splits)

lemma ParseInt_syntax: "snd (ParseInt s) = Some ErrSyntax \<Longrightarrow> fst (ParseInt s) = 0"
  by (auto simp: ParseInt_def Let_def split: if_splits prod.splits)

lemma sint_cutoff_pred: "sint ((push_bit 63 1 :: 64 word) - 1) = 9223372036854775807"
  by simp

lemma sint_cutoff_neg: "sint (- (push_bit 63 1 :: 64 word)) = - 9223372036854775808"
  by simp

lemma ParseInt_range:
  "snd (ParseInt s) = Some ErrRange \<Longrightarrow>
     sint (fst (ParseInt s)) = 9223372036854775807 \<or> sint (fst (ParseInt s)) = - 9223372036854775808"
  unfolding ParseInt_def Let_def
  by (auto split: if_splits prod.splits simp del: push_bit_of_1
      simp: sint_cutoff_pred sint_cutoff_neg)

lemma parseDynamoUint64_N:
  "parseDynamoUint64 (Some (AttributeValueMemberN v)) = Returned (fst (ParseUint v))"
  by (simp add: parseDynamoUint64_def assert_MemberN_def)

lemma parseDynamoInt64_N:
  "parseDynamoInt64 (Some (AttributeValueMemberN v)) = Returned (fst (ParseInt v))"
  by (simp add: parseDynamoInt64_def assert_MemberN_def)

text \<open>The loop of \<^verbatim>\<open>ParseUint\<close> in terms of the text: word arithmetic read through \<open>unat\<close>.\<close>

lemma decimal_from_mono: "acc \<le> decimal_from acc s"
proof (induction s arbitrary: acc)
  case Nil show ?case by simp
next
  case (Cons c cs)
  have "acc \<le> 10 * acc + (of_char c - 48)" by simp
  also have "\<dots> \<le> decimal_from (10 * acc + (of_char c - 48)) cs" by (rule Cons.IH)
  finally show ?case by simp
qed

lemma cutoff_val: "unat (maxUint64 div 10 + 1) = 1844674407370955162"
  by (simp add: maxUint64_def unat_div unat_word_ariths)

lemma cutoff_le: "(maxUint64 div 10 + 1 \<le> n) = (1844674407370955162 \<le> unat n)"
  by (simp add: word_le_nat_alt cutoff_val)

lemma unat_times10:
  assumes "unat (n :: uint64) < 1844674407370955162"
  shows "unat (n * 10) = 10 * unat n"
  using assms by (simp add: unat_word_ariths)

lemma unat_digit:
  assumes "dn \<le> 9"
  shows "unat (of_nat dn :: uint64) = dn"
  using assms by (simp add: unat_of_nat)

lemma add_wraps:
  "((a :: uint64) + b < a) = (18446744073709551616 \<le> unat a + unat b)"
  using no_olen_add_nat [of a b] by (simp add: not_le [symmetric] not_less)

lemma unat_add_nowrap:
  assumes "unat (a :: uint64) + unat b < 18446744073709551616"
  shows "unat (a + b) = unat a + unat b"
  using assms by (simp add: unat_word_ariths)

lemma not_above_max: "\<not> (n :: uint64) > maxUint64"
  by (simp add: maxUint64_def word_order.not_eq_extremum word_order.extremum_strict)

lemma ParseUint_loop_char:
  "ParseUint_loop n s =
     (let ds = takeWhile is_digit s; v = decimal_from (unat n) ds
      in if 18446744073709551616 \<le> v then (maxUint64, Some ErrRange)
         else if ds \<noteq> s then (0, Some ErrSyntax)
         else (of_nat v, None))"
proof (induction s arbitrary: n)
  case Nil
  have "unat n < 18446744073709551616" using unsigned_less [of n] by simp
  then show ?case by simp
next
  case (Cons c cs)
  have nb: "unat n < 18446744073709551616" using unsigned_less [of n] by simp
  show ?case
  proof (cases "is_digit c")
    case False
    then have h: "(48 \<le> (of_char c :: nat) \<and> (of_char c :: nat) \<le> 57) = False"
      by (simp add: is_digit_def)
    have step: "ParseUint_loop n (c # cs) = (0, Some ErrSyntax)"
      by (simp only: ParseUint_loop.simps h if_False)
    have tw: "takeWhile is_digit (c # cs) = []" using False by simp
    show ?thesis using nb by (simp only: step tw Let_def decimal_from.simps) simp
  next
    case True
    then have h: "(48 \<le> (of_char c :: nat) \<and> (of_char c :: nat) \<le> 57) = True"
      by (simp add: is_digit_def)
    define dn where "dn = (of_char c :: nat) - 48"
    define ds where "ds = takeWhile is_digit cs"
    have dn: "dn \<le> 9" using True unfolding dn_def is_digit_def by linarith
    have ud: "unat (of_nat dn :: uint64) = dn" by (rule unat_digit [OF dn])
    have step: "ParseUint_loop n (c # cs) =
        (if maxUint64 div 10 + 1 \<le> n then (maxUint64, Some ErrRange)
         else if n * 10 + of_nat dn < n * 10 \<or> maxUint64 < n * 10 + of_nat dn
           then (maxUint64, Some ErrRange)
           else ParseUint_loop (n * 10 + of_nat dn) cs)"
      unfolding dn_def by (simp only: ParseUint_loop.simps h if_True Let_def)
    have tw: "takeWhile is_digit (c # cs) = c # ds" using True by (simp add: ds_def)
    have dv: "decimal_from (unat n) (c # ds) = decimal_from (10 * unat n + dn) ds"
      by (simp add: dn_def)
    have neq: "(c # ds \<noteq> c # cs) = (ds \<noteq> cs)" by simp
    have mono: "10 * unat n + dn \<le> decimal_from (10 * unat n + dn) ds"
      by (rule decimal_from_mono)
    show ?thesis
    proof (cases "1844674407370955162 \<le> unat n")
      case big: True
      have "18446744073709551616 \<le> 10 * unat n + dn" using big by simp
      with mono have "18446744073709551616 \<le> decimal_from (10 * unat n + dn) ds"
        by linarith
      then show ?thesis using big
        by (simp only: step tw dv Let_def cutoff_le if_True)
    next
      case small: False
      then have u10: "unat (n * 10) = 10 * unat n" by (simp add: unat_times10)
      show ?thesis
      proof (cases "18446744073709551616 \<le> 10 * unat n + dn")
        case wrap: True
        have w: "n * 10 + of_nat dn < n * 10" by (simp add: add_wraps u10 ud wrap)
        from wrap mono have "18446744073709551616 \<le> decimal_from (10 * unat n + dn) ds"
          by linarith
        then show ?thesis using small w
          by (simp only: step tw dv Let_def cutoff_le if_True if_False simp_thms)
      next
        case nowrap: False
        have nw: "\<not> n * 10 + of_nat dn < n * 10" using nowrap by (simp add: add_wraps u10 ud)
        have u1: "unat (n * 10 + of_nat dn) = 10 * unat n + dn"
          using nowrap by (simp add: unat_add_nowrap u10 ud)
        have ih: "ParseUint_loop (n * 10 + of_nat dn) cs =
           (if 18446744073709551616 \<le> decimal_from (10 * unat n + dn) ds
            then (maxUint64, Some ErrRange)
            else if ds \<noteq> cs then (0, Some ErrSyntax)
            else (of_nat (decimal_from (10 * unat n + dn) ds), None))"
          unfolding ds_def by (simp add: Cons.IH [of "n * 10 + of_nat dn"] Let_def u1)
        show ?thesis using small nw not_above_max [of "n * 10 + of_nat dn"]
          by (simp only: step tw dv neq Let_def cutoff_le if_False simp_thms ih)
      qed
    qed
  qed
qed

lemma all_digits_conv: "(takeWhile is_digit s \<noteq> s) = (\<not> list_all is_digit s)"
  by (simp add: takeWhile_eq_all_conv list_all_iff)

lemma ParseUint_char:
  "ParseUint s =
     (if 18446744073709551616 \<le> magnitude s then (maxUint64, Some ErrRange)
      else if s = [] \<or> \<not> list_all is_digit s then (0, Some ErrSyntax)
      else (of_nat (magnitude s), None))"
proof (cases "s = []")
  case True
  then show ?thesis by (simp add: ParseUint_def magnitude_def)
next
  case False
  then show ?thesis
    unfolding ParseUint_def magnitude_def ParseUint_loop_char Let_def all_digits_conv
    by simp
qed

lemma ParseUint_range_text:
  "18446744073709551616 \<le> magnitude s \<Longrightarrow> ParseUint s = (maxUint64, Some ErrRange)"
  by (simp add: ParseUint_char)

lemma ParseUint_syntax_text:
  "uint_syntax_error s \<Longrightarrow> ParseUint s = (0, Some ErrSyntax)"
  unfolding ParseUint_char uint_syntax_error_def by auto

lemma ParseUint_value_text:
  "\<not> uint_syntax_error s \<Longrightarrow> magnitude s < 18446744073709551616 \<Longrightarrow>
     ParseUint s = (of_nat (magnitude s), None)"
  unfolding ParseUint_char uint_syntax_error_def by auto

lemma ParseInt_unfold:
  "ParseInt s =
     (let (un, err) = ParseUint (unsigned_part s)
      in if s = [] \<or> err = Some ErrSyntax then (0, Some ErrSyntax)
         else if \<not> minus_sign s \<and> un \<ge> push_bit 63 1 then (push_bit 63 1 - 1, Some ErrRange)
         else if minus_sign s \<and> un > push_bit 63 1 then (- push_bit 63 1, Some ErrRange)
         else (if minus_sign s then - un else un, None))"
proof (cases s)
  case Nil
  then show ?thesis by (simp add: ParseInt_def split: prod.splits)
next
  case (Cons c cs)
  then show ?thesis
    unfolding ParseInt_def Let_def unsigned_part_def minus_sign_def
    by (auto split: prod.splits)
qed

lemma ParseInt_syntax_text:
  "int_syntax_error s \<Longrightarrow> ParseInt s = (0, Some ErrSyntax)"
  unfolding ParseInt_unfold int_syntax_error_def
  by (simp add: ParseUint_syntax_text)

lemma not_syntax_nonempty: "\<not> int_syntax_error s \<Longrightarrow> s \<noteq> []"
  by (auto simp: int_syntax_error_def uint_syntax_error_def unsigned_part_def magnitude_def)

lemma ParseUint_magnitude:
  assumes "\<not> uint_syntax_error b"
  shows "ParseUint b =
     (if 18446744073709551616 \<le> magnitude b then (maxUint64, Some ErrRange)
      else (of_nat (magnitude b), None))"
  using assms by (simp add: ParseUint_range_text ParseUint_value_text)

lemma cutoff_le_max: "(push_bit 63 1 :: uint64) \<le> maxUint64" "(push_bit 63 1 :: uint64) < maxUint64"
  by (simp_all add: maxUint64_def word_le_nat_alt word_less_nat_alt unsigned_minus_1_eq_mask
      mask_eq_exp_minus_1)

lemma cutoff_le_of_nat:
  assumes "m < 18446744073709551616"
  shows "((push_bit 63 1 :: uint64) \<le> of_nat m) = (9223372036854775808 \<le> m)"
    and "((push_bit 63 1 :: uint64) < of_nat m) = (9223372036854775808 < m)"
  using assms by (simp_all add: word_le_nat_alt word_less_nat_alt unat_of_nat)

lemma ParseInt_range_plus:
  assumes "\<not> int_syntax_error s" and "\<not> minus_sign s"
    and "9223372036854775808 \<le> magnitude (unsigned_part s)"
  shows "ParseInt s = (9223372036854775807, Some ErrRange)"
proof -
  have u: "\<not> uint_syntax_error (unsigned_part s)" using assms(1) by (simp add: int_syntax_error_def)
  have n: "s \<noteq> []" by (rule not_syntax_nonempty [OF assms(1)])
  show ?thesis
  proof (cases "18446744073709551616 \<le> magnitude (unsigned_part s)")
    case True
    then show ?thesis
      unfolding ParseInt_unfold ParseUint_magnitude [OF u]
      using n assms(2) cutoff_le_max by (simp del: push_bit_of_1) simp
  next
    case False
    then have lt: "magnitude (unsigned_part s) < 18446744073709551616" by simp
    show ?thesis
      unfolding ParseInt_unfold ParseUint_magnitude [OF u]
      using n assms(2,3) False cutoff_le_of_nat [OF lt] by (simp del: push_bit_of_1) simp
  qed
qed

lemma ParseInt_range_minus:
  assumes "\<not> int_syntax_error s" and "minus_sign s"
    and "9223372036854775808 < magnitude (unsigned_part s)"
  shows "ParseInt s = (9223372036854775808, Some ErrRange)"
proof -
  have u: "\<not> uint_syntax_error (unsigned_part s)" using assms(1) by (simp add: int_syntax_error_def)
  have n: "s \<noteq> []" by (rule not_syntax_nonempty [OF assms(1)])
  show ?thesis
  proof (cases "18446744073709551616 \<le> magnitude (unsigned_part s)")
    case True
    then show ?thesis
      unfolding ParseInt_unfold ParseUint_magnitude [OF u]
      using n assms(2) cutoff_le_max by (simp del: push_bit_of_1) simp
  next
    case False
    then have lt: "magnitude (unsigned_part s) < 18446744073709551616" by simp
    show ?thesis
      unfolding ParseInt_unfold ParseUint_magnitude [OF u]
      using n assms(2,3) False cutoff_le_of_nat [OF lt] by (simp del: push_bit_of_1) simp
  qed
qed

lemma ParseInt_value_plus:
  assumes "\<not> int_syntax_error s" and "\<not> minus_sign s"
    and "magnitude (unsigned_part s) < 9223372036854775808"
  shows "ParseInt s = (of_nat (magnitude (unsigned_part s)), None)"
proof -
  have u: "\<not> uint_syntax_error (unsigned_part s)" using assms(1) by (simp add: int_syntax_error_def)
  have n: "s \<noteq> []" by (rule not_syntax_nonempty [OF assms(1)])
  have lt: "magnitude (unsigned_part s) < 18446744073709551616" using assms(3) by simp
  show ?thesis
    unfolding ParseInt_unfold ParseUint_magnitude [OF u]
    using n assms(2,3) lt cutoff_le_of_nat [OF lt] by (simp del: push_bit_of_1)
qed

lemma ParseInt_value_minus:
  assumes "\<not> int_syntax_error s" and "minus_sign s"
    and "magnitude (unsigned_part s) \<le> 9223372036854775808"
  shows "ParseInt s = (- of_nat (magnitude (unsigned_part s)), None)"
proof -
  have u: "\<not> uint_syntax_error (unsigned_part s)" using assms(1) by (simp add: int_syntax_error_def)
  have n: "s \<noteq> []" by (rule not_syntax_nonempty [OF assms(1)])
  have lt: "magnitude (unsigned_part s) < 18446744073709551616" using assms(3) by simp
  show ?thesis
    unfolding ParseInt_unfold ParseUint_magnitude [OF u]
    using n assms(2,3) lt cutoff_le_of_nat [OF lt] by (simp del: push_bit_of_1)
qed

lemma sint_of_magnitude:
  "m < 9223372036854775808 \<Longrightarrow> sint (of_nat m :: uint64) = int m"
  by (simp add: signed_of_nat signed_take_bit_int_eq_self)

lemma sint_of_neg_magnitude:
  assumes "m \<le> 9223372036854775808"
  shows "sint (- of_nat m :: uint64) = - int m"
proof -
  have "(- of_nat m :: uint64) = word_of_int (- int m)" by simp
  then have "sint (- of_nat m :: uint64) = signed_take_bit 63 (- int m)"
    by (simp only: signed_of_int) simp
  also have "\<dots> = - int m" using assms by (simp add: signed_take_bit_int_eq_self)
  finally show ?thesis .
qed

lemma sint_bounds: "sint (9223372036854775807 :: uint64) = 9223372036854775807"
  "sint (9223372036854775808 :: uint64) = - 9223372036854775808"
  by simp_all

lemma unat_maxUint64: "unat maxUint64 = 18446744073709551615"
  by (simp add: maxUint64_def unsigned_minus_1_eq_mask mask_eq_exp_minus_1)

lemma signed_text_uint_syntax_error:
  "uint_syntax_error (CHR ''+'' # x)" "uint_syntax_error (CHR ''-'' # x)"
  by (simp_all add: uint_syntax_error_def magnitude_def is_digit_def)

lemma ParseUint_text_classes:
  "(uint_syntax_error x \<longrightarrow> ParseUint x = (0, Some ErrSyntax)) \<and>
   (18446744073709551616 \<le> magnitude x \<longrightarrow> ParseUint x = (maxUint64, Some ErrRange)) \<and>
   (\<not> uint_syntax_error x \<and> magnitude x < 18446744073709551616 \<longrightarrow>
      ParseUint x = (of_nat (magnitude x), None))"
  by (simp add: ParseUint_syntax_text ParseUint_range_text ParseUint_value_text)

lemma ParseInt_text_classes:
  "(int_syntax_error x \<longrightarrow> ParseInt x = (0, Some ErrSyntax)) \<and>
   (\<not> int_syntax_error x \<and> \<not> minus_sign x \<and>
    9223372036854775808 \<le> magnitude (unsigned_part x) \<longrightarrow>
      ParseInt x = (9223372036854775807, Some ErrRange) \<and>
      sint (fst (ParseInt x)) = 9223372036854775807) \<and>
   (\<not> int_syntax_error x \<and> minus_sign x \<and>
    9223372036854775808 < magnitude (unsigned_part x) \<longrightarrow>
      ParseInt x = (9223372036854775808, Some ErrRange) \<and>
      sint (fst (ParseInt x)) = - 9223372036854775808) \<and>
   (\<not> int_syntax_error x \<and> \<not> minus_sign x \<and>
    magnitude (unsigned_part x) < 9223372036854775808 \<longrightarrow>
      ParseInt x = (of_nat (magnitude (unsigned_part x)), None) \<and>
      sint (fst (ParseInt x)) = int (magnitude (unsigned_part x))) \<and>
   (\<not> int_syntax_error x \<and> minus_sign x \<and>
    magnitude (unsigned_part x) \<le> 9223372036854775808 \<longrightarrow>
      ParseInt x = (- of_nat (magnitude (unsigned_part x)), None) \<and>
      sint (fst (ParseInt x)) = - int (magnitude (unsigned_part x)))"
  by (simp add: ParseInt_syntax_text ParseInt_range_plus ParseInt_range_minus
      ParseInt_value_plus ParseInt_value_minus sint_of_magnitude sint_of_neg_magnitude
      sint_bounds)

lemma strconv_samples:
  "ParseUint ''1000'' = (1000, None) \<and> ParseUint ''18446744073709551615'' = (maxUint64, None) \<and>
   ParseUint [] = (0, Some ErrSyntax) \<and> ParseUint ''-1'' = (0, Some ErrSyntax) \<and>
   ParseInt ''+42'' = (42, None) \<and> ParseInt ''-42'' = (- 42, None) \<and>
   ParseInt ''-9223372036854775808'' = (9223372036854775808, None) \<and>
   ParseInt ''9223372036854775808'' = (9223372036854775807, Some ErrRange) \<and>
   ParseInt ''1e3'' = (0, Some ErrSyntax)"
  by code_simp

section \<open>The service\<close>

lemma PutItem_twice:
  "PutItem be tname it = (be', e) \<Longrightarrow> PutItem be' tname it = (be', e)"
  by (auto simp: PutItem_def split: if_splits option.splits AttributeValue.splits)

lemma PutItem_ok_key:
  assumes "PutItem be tname it = (be', None)"
  shows "reachable be' \<and> (\<exists>t k. tables be' tname = Some t \<and>
           map_of it (key_attr t) = Some (AttributeValueMemberS k) \<and> rows t k = Some it)"
  using assms
  by (auto simp: PutItem_def split: if_splits option.splits AttributeValue.splits)

lemma GetItem_wrong_key:
  assumes "reachable be" and "tables be tname = Some t" and "key_attr t \<noteq> a"
  shows "GetItem be tname [(a, v)] = (None, Some ValidationException)"
  using assms by (auto simp: GetItem_def)

section \<open>The write path\<close>

lemma WriteState_item_no_PK: "map_of (WriteState_item rt state) ''PK'' = None"
  by (simp add: WriteState_item_def Let_def)

lemma WriteState_stores:
  assumes "client d = Some c" and "reachable be" and "tables be tableName = Some t"
    and "key_attr t = ''PersistenceID''"
  shows "WriteState rt d be state =
     (be\<lparr>tables := (tables be)(tableName \<mapsto>
            t\<lparr>rows := (rows t)(GetPersistenceId state \<mapsto> WriteState_item rt state)\<rparr>)\<rparr>,
      Returned None)"
  using assms by (simp add: WriteState_def PutItem_def WriteState_item_def Let_def)

lemma write_refused_under_PK:
  assumes "client d = Some c" and "reachable be" and "tables be tableName = Some t"
    and "key_attr t = ''PK''"
  shows "WriteState rt d be state =
     (be, Returned (Some (Errorf ''failed to upsert state into the dynamodb: ''
        (BackendError ValidationException))))"
  using assms by (simp add: WriteState_def PutItem_def WriteState_item_def Let_def)

lemma WriteState_item_Marshal_error_irrelevant:
  "WriteState_item (rt\<lparr>Marshal := (\<lambda>m. (fst (Marshal rt m), e m))\<rparr>) state = WriteState_item rt state"
  by (simp add: WriteState_item_def Let_def)

section \<open>The read path\<close>

lemma GetLatestState_found:
  assumes "client d = Some c"
    and "GetItem be tableName (GetLatestState_key persistenceID) = (Some it, None)"
  shows "GetLatestState rt d be persistenceID =
     bind_outcome (parseDynamoUint64 (map_of it ''VersionNumber'')) (\<lambda>version.
     bind_outcome (assert_MemberB (map_of it ''StatePayload'')) (\<lambda>payload.
     bind_outcome (assert_MemberS (map_of it ''StateManifest'')) (\<lambda>manifest.
     bind_outcome (parseDynamoInt64 (map_of it ''Timestamp'')) (\<lambda>timestamp.
     bind_outcome (parseDynamoUint64 (map_of it ''ShardNumber'')) (\<lambda>shard.
       case toProto rt manifest payload of
         (_, Some err) \<Rightarrow>
           Returned (None, Some (Errorf ''failed to unmarshal the durable state: '' err))
       | (state, None) \<Rightarrow>
           Returned (Some \<lparr>pb_PersistenceId = persistenceID, pb_VersionNumber = version,
                           pb_ResultingState = state, pb_Timestamp = timestamp,
                           pb_Shard = shard\<rparr>, None))))))"
  using assms by (simp add: GetLatestState_def Let_def)

lemma toProto_shape:
  "(\<exists>a. toProto rt m p = (Some a, None)) \<or> (\<exists>e. toProto rt m p = (None, Some e))"
  by (auto simp: toProto_def split: option.splits prod.splits message.splits)

lemma GetLatestState_typed_returns:
  assumes "client d = Some c"
    and "GetItem be tableName (GetLatestState_key persistenceID) = (Some it, None)"
    and "expected_types it"
  shows "\<exists>r. GetLatestState rt d be persistenceID = Returned r"
proof -
  from assms(3) obtain v p m t s where
    "map_of it ''VersionNumber'' = Some (AttributeValueMemberN v)"
    "map_of it ''StatePayload'' = Some (AttributeValueMemberB p)"
    "map_of it ''StateManifest'' = Some (AttributeValueMemberS m)"
    "map_of it ''Timestamp'' = Some (AttributeValueMemberN t)"
    "map_of it ''ShardNumber'' = Some (AttributeValueMemberN s)"
    by (auto simp: expected_types_def split: option.splits AttributeValue.splits)
  then show ?thesis
    using toProto_shape [of rt m p]
    by (auto simp: GetLatestState_found [OF assms(1,2)] parseDynamoUint64_N parseDynamoInt64_N
        assert_MemberB_def assert_MemberS_def)
qed

lemma GetLatestState_untyped_panics:
  assumes "client d = Some c"
    and "GetItem be tableName (GetLatestState_key persistenceID) = (Some it, None)"
    and "\<not> expected_types it"
  shows "GetLatestState rt d be persistenceID = Panic InterfaceConversion"
  using assms(3)
  by (auto simp: GetLatestState_found [OF assms(1,2)] expected_types_def parseDynamoUint64_def
      parseDynamoInt64_def assert_MemberN_def assert_MemberB_def assert_MemberS_def
      split: option.splits AttributeValue.splits)

text \<open>
  After a write that succeeded, every read is refused by the service: the table's key
  attribute is one of the string attributes of the written item, and the key of the read
  path names another.
\<close>

lemma read_after_write_rejected:
  assumes "WriteState rt d be state = (be', Returned None)"
  shows "GetLatestState rt' d be' persistenceID =
     Returned (None, Some (Errorf ''failed to fetch the latest state from the dynamodb: ''
       (BackendError ValidationException)))"
proof -
  from assms obtain c where c: "client d = Some c"
    by (cases "client d") (auto simp: WriteState_def Let_def)
  with assms have "PutItem be tableName (WriteState_item rt state) = (be', None)"
    by (auto simp: WriteState_def Let_def split: prod.splits option.splits)
  from PutItem_ok_key [OF this] obtain t k where
    r: "reachable be'" and t: "tables be' tableName = Some t"
    and k: "map_of (WriteState_item rt state) (key_attr t) = Some (AttributeValueMemberS k)"
    by blast
  from k have "key_attr t \<noteq> ''PK''"
    using WriteState_item_no_PK [of rt state] by auto
  then have "GetItem be' tableName (GetLatestState_key persistenceID) = (None, Some ValidationException)"
    unfolding GetLatestState_key_def by (rule GetItem_wrong_key [OF r t])
  with c show ?thesis
    by (simp add: GetLatestState_def Let_def)
qed

section \<open>The claims\<close>

text \<open>
  C1. The round trip of the specification's scenario does not hold on the code. Against a
  table keyed by \<open>PersistenceID\<close>, as the write path and the README have it, the write of
  actor \<open>acct-42\<close> succeeds and the read of \<open>acct-42\<close> returns no record but the error of
  a lookup that the service refused, since the read path keys it by \<open>PK\<close>. Against a
  table keyed by \<open>PK\<close> the write itself is refused. And were the written item found
  under \<open>PK\<close>, the read would panic on its string-typed timestamp.
\<close>

theorem C1_roundtrip_fails:
  "WriteState sample_runtime sample_store (sample_backend ''PersistenceID'' Map.empty)
       (Some sample_state) =
     (sample_backend ''PersistenceID'' [''acct-42'' \<mapsto> written_item], Returned None) \<and>
   GetLatestState sample_runtime sample_store
       (sample_backend ''PersistenceID'' [''acct-42'' \<mapsto> written_item]) ''acct-42'' =
     Returned (None, Some (Errorf ''failed to fetch the latest state from the dynamodb: ''
       (BackendError ValidationException))) \<and>
   WriteState sample_runtime sample_store (sample_backend ''PK'' Map.empty) (Some sample_state) =
     (sample_backend ''PK'' Map.empty,
      Returned (Some (Errorf ''failed to upsert state into the dynamodb: ''
        (BackendError ValidationException)))) \<and>
   GetLatestState sample_runtime sample_store
       (sample_backend ''PK'' [''acct-42'' \<mapsto> written_item]) ''acct-42'' =
     Panic InterfaceConversion"
proof -
  have w: "WriteState sample_runtime sample_store (sample_backend ''PersistenceID'' Map.empty)
       (Some sample_state) =
     (sample_backend ''PersistenceID'' [''acct-42'' \<mapsto> written_item], Returned None)"
    by (simp add: WriteState_stores [where c = "NewFromConfig \<lparr>region = ''us-west-2''\<rparr>"
          and t = "\<lparr>key_attr = ''PersistenceID'', rows = Map.empty\<rparr>"]
        sample_store_def sample_backend_def written_item_def GetPersistenceId_def sample_state_def)
  have g: "GetLatestState sample_runtime sample_store
       (sample_backend ''PersistenceID'' [''acct-42'' \<mapsto> written_item]) ''acct-42'' =
     Returned (None, Some (Errorf ''failed to fetch the latest state from the dynamodb: ''
       (BackendError ValidationException)))"
    by (rule read_after_write_rejected [OF w])
  have x: "WriteState sample_runtime sample_store (sample_backend ''PK'' Map.empty)
       (Some sample_state) =
     (sample_backend ''PK'' Map.empty,
      Returned (Some (Errorf ''failed to upsert state into the dynamodb: ''
        (BackendError ValidationException))))"
    by (simp add: write_refused_under_PK [where c = "NewFromConfig \<lparr>region = ''us-west-2''\<rparr>"
          and t = "\<lparr>key_attr = ''PK'', rows = Map.empty\<rparr>"]
        sample_store_def sample_backend_def)
  have a1: "client sample_store = Some (NewFromConfig \<lparr>region = ''us-west-2''\<rparr>)"
    by (simp add: sample_store_def)
  have a2: "GetItem (sample_backend ''PK'' [''acct-42'' \<mapsto> written_item]) tableName
      (GetLatestState_key ''acct-42'') = (Some written_item, None)"
    by (simp add: GetItem_def sample_backend_def GetLatestState_key_def)
  have a3: "\<not> expected_types written_item"
    by (simp add: expected_types_def written_item_def WriteState_item_def Let_def)
  have p: "GetLatestState sample_runtime sample_store
       (sample_backend ''PK'' [''acct-42'' \<mapsto> written_item]) ''acct-42'' =
     Panic InterfaceConversion"
    by (rule GetLatestState_untyped_panics [OF a1 a2 a3])
  show ?thesis using w g x p by simp
qed

text \<open>
  C2. The read path looks the item up under the attribute name \<open>PK\<close> alone; the item of
  the write path has the six names of its literal, \<open>PK\<close> not among them, and carries the
  actor id under \<open>PersistenceID\<close>, a name the key of the read path does not have. This
  holds for every state written and every actor id read.
\<close>

theorem C2_lookup_key_not_written:
  "map fst (GetLatestState_key persistenceID) = [''PK''] \<and>
   map fst (WriteState_item rt state) =
     [''PersistenceID'', ''VersionNumber'', ''StatePayload'', ''StateManifest'',
      ''Timestamp'', ''ShardNumber''] \<and>
   ''PK'' \<notin> set (map fst (WriteState_item rt state)) \<and>
   map_of (WriteState_item rt state) ''PK'' = None \<and>
   map_of (WriteState_item rt state) ''PersistenceID'' =
     Some (AttributeValueMemberS (GetPersistenceId state)) \<and>
   map_of (GetLatestState_key persistenceID) ''PersistenceID'' = None"
  by (simp add: GetLatestState_key_def WriteState_item_def Let_def)



text \<open>
  C4. A \<^verbatim>\<open>Connect\<close> that returns a nil error leaves the caller's store as it was: the
  client built from the loaded configuration is assigned to the copy that the body runs
  on, and \<^verbatim>\<open>Ping\<close>, \<^verbatim>\<open>WriteState\<close> and \<^verbatim>\<open>GetLatestState\<close> on the store after the call do
  what they do on the store before it.
\<close>

theorem C4_Connect_leaves_store:
  assumes "Connect rt d = (d', None)"
  shows "d' = d \<and> client d' = client d \<and>
         (\<exists>cfg. LoadDefaultConfig rt ''us-west-2'' = (cfg, None) \<and>
            client (fst (Connect_body rt d)) = Some (NewFromConfig cfg)) \<and>
         Ping d' be = Ping d be \<and>
         WriteState rt d' be state = WriteState rt d be state \<and>
         GetLatestState rt d' be persistenceID = GetLatestState rt d be persistenceID"
  using assms
  by (auto simp: Connect_def value_receiver_def Connect_body_def split: prod.splits option.splits)

theorem C4_Connect_leaves_store_witness:
  "Connect sample_runtime unconnected_store = (unconnected_store, None) \<and>
   client (fst (Connect_body sample_runtime unconnected_store)) =
     Some (NewFromConfig \<lparr>region = ''us-west-2''\<rparr>) \<and>
   client unconnected_store = None \<and>
   Ping unconnected_store (sample_backend ''PersistenceID'' Map.empty) = Panic NilDereference \<and>
   WriteState sample_runtime unconnected_store (sample_backend ''PersistenceID'' Map.empty)
       (Some sample_state) =
     (sample_backend ''PersistenceID'' Map.empty, Panic NilDereference) \<and>
   GetLatestState sample_runtime unconnected_store (sample_backend ''PersistenceID'' Map.empty)
       ''acct-42'' = Panic NilDereference"
proof -
  have c: "Connect sample_runtime unconnected_store = (unconnected_store, None)"
    by (simp add: Connect_def value_receiver_def Connect_body_def sample_runtime_def)
  have l: "LoadDefaultConfig sample_runtime ''us-west-2'' = (\<lparr>region = ''us-west-2''\<rparr>, None)"
    by (simp add: sample_runtime_def)
  have n: "client unconnected_store = None"
    by (simp add: unconnected_store_def)
  from C4_Connect_leaves_store [OF c] l
  have b: "client (fst (Connect_body sample_runtime unconnected_store)) =
     Some (NewFromConfig \<lparr>region = ''us-west-2''\<rparr>)"
    by auto
  show ?thesis
    using c b n by (simp add: Ping_def WriteState_def GetLatestState_def Let_def)
qed

text \<open>
  C5. \<^verbatim>\<open>toProto\<close> answers a name without a registered message type with the registry's
  not-found error, bytes that the resolved type does not decode with the decoder's error,
  a decoded message that is not the envelope with the failed-to-unpack error, and a
  decoded envelope with the envelope and a nil error. Its result is always either a value
  with a nil error or a nil value with an error.
\<close>

theorem C5_toProto_outcomes:
  "(GlobalTypes rt manifest = None \<longrightarrow> toProto rt manifest bytea = (None, Some NotFound)) \<and>
   (\<forall>mt pm err.
      GlobalTypes rt manifest = Some mt \<and> Unmarshal rt bytea (New mt) = (pm, Some err) \<longrightarrow>
      toProto rt manifest bytea = (None, Some (ProtoError err)) \<and>
      ProtoError err \<noteq> NotFound \<and> ProtoError err \<noteq> FailedToUnpack manifest) \<and>
   (\<forall>mt name content.
      GlobalTypes rt manifest = Some mt \<and>
      Unmarshal rt bytea (New mt) = (OtherMessage name content, None) \<longrightarrow>
      toProto rt manifest bytea = (None, Some (FailedToUnpack manifest))) \<and>
   (\<forall>mt cast.
      GlobalTypes rt manifest = Some mt \<and> Unmarshal rt bytea (New mt) = (AnyMessage cast, None) \<longrightarrow>
      toProto rt manifest bytea = (Some cast, None)) \<and>
   ((\<exists>cast. toProto rt manifest bytea = (Some cast, None)) \<or>
    (\<exists>err. toProto rt manifest bytea = (None, Some err)))"
  by (auto simp: toProto_def split: option.splits prod.splits message.splits)

theorem C5_toProto_outcomes_witness:
  "GlobalTypes sample_runtime ''sample.Missing'' = None \<and>
   toProto sample_runtime ''sample.Missing'' [8, 100] = (None, Some NotFound) \<and>
   toProto sample_runtime Any_FullName [10, 5, 97] = (None, Some (ProtoError InvalidWireFormat)) \<and>
   toProto sample_runtime ''sample.Account'' [8, 100] =
     (None, Some (FailedToUnpack ''sample.Account'')) \<and>
   toProto sample_runtime Any_FullName (fst (sample_Marshal (Some sample_payload))) =
     (Some sample_payload, None)"
proof -
  have g1: "GlobalTypes sample_runtime ''sample.Missing'' = None"
    by code_simp
  have g2: "GlobalTypes sample_runtime Any_FullName =
      Some \<lparr>New = AnyMessage \<lparr>type_url = [], any_value = []\<rparr>\<rparr>"
    by code_simp
  have g3: "GlobalTypes sample_runtime ''sample.Account'' =
      Some \<lparr>New = OtherMessage ''sample.Account'' []\<rparr>"
    by code_simp
  have u2: "Unmarshal sample_runtime [10, 5, 97] (New \<lparr>New = AnyMessage \<lparr>type_url = [], any_value = []\<rparr>\<rparr>) =
      (AnyMessage \<lparr>type_url = [], any_value = []\<rparr>, Some InvalidWireFormat)"
    by code_simp
  have u3: "Unmarshal sample_runtime [8, 100] (New \<lparr>New = OtherMessage ''sample.Account'' []\<rparr>) =
      (OtherMessage ''sample.Account'' [8, 100], None)"
    by code_simp
  have u4: "Unmarshal sample_runtime (fst (sample_Marshal (Some sample_payload)))
        (New \<lparr>New = AnyMessage \<lparr>type_url = [], any_value = []\<rparr>\<rparr>) =
      (AnyMessage sample_payload, None)"
    by code_simp
  from g1 C5_toProto_outcomes [of sample_runtime "''sample.Missing''" "[8, 100]"]
  have r1: "toProto sample_runtime ''sample.Missing'' [8, 100] = (None, Some NotFound)"
    by blast
  from g2 u2 C5_toProto_outcomes [of sample_runtime Any_FullName "[10, 5, 97]"]
  have r2: "toProto sample_runtime Any_FullName [10, 5, 97] =
      (None, Some (ProtoError InvalidWireFormat))"
    by blast
  from g3 u3 C5_toProto_outcomes [of sample_runtime "''sample.Account''" "[8, 100]"]
  have r3: "toProto sample_runtime ''sample.Account'' [8, 100] =
      (None, Some (FailedToUnpack ''sample.Account''))"
    by blast
  from g2 u4 C5_toProto_outcomes [of sample_runtime Any_FullName
      "fst (sample_Marshal (Some sample_payload))"]
  have r4: "toProto sample_runtime Any_FullName (fst (sample_Marshal (Some sample_payload))) =
      (Some sample_payload, None)"
    by blast
  show ?thesis using g1 r1 r2 r3 r4 by simp
qed

text \<open>
  C6. When the store has a client and the lookup of the actor id succeeds without an
  item, \<^verbatim>\<open>GetLatestState\<close> returns a nil record with a nil error.
\<close>

theorem C6_absent_is_not_an_error:
  assumes "client d = Some c"
    and "GetItem be tableName (GetLatestState_key persistenceID) = (None, None)"
  shows "GetLatestState rt d be persistenceID = Returned (None, None)"
  using assms by (simp add: GetLatestState_def Let_def)

theorem C6_absent_witness:
  "client sample_store = Some (NewFromConfig \<lparr>region = ''us-west-2''\<rparr>) \<and>
   GetItem (sample_backend ''PK'' Map.empty) tableName (GetLatestState_key ''acct-99'') =
     (None, None) \<and>
   GetLatestState sample_runtime sample_store (sample_backend ''PK'' Map.empty) ''acct-99'' =
     Returned (None, None)"
proof -
  have c: "client sample_store = Some (NewFromConfig \<lparr>region = ''us-west-2''\<rparr>)"
    by (simp add: sample_store_def)
  have g: "GetItem (sample_backend ''PK'' Map.empty) tableName (GetLatestState_key ''acct-99'') =
      (None, None)"
    by (simp add: GetItem_def sample_backend_def GetLatestState_key_def)
  show ?thesis
    using c g C6_absent_is_not_an_error [OF c g, of sample_runtime] by simp
qed

text \<open>
  C7, as the claim states it, fails on text that is out of range: the decoders return
  the largest magnitude of the field, not zero. A stored version of \<open>2^64\<close> is read as
  \<open>2^64 - 1\<close> and a stored timestamp of \<open>- 2^63 - 1\<close> as \<open>- 2^63\<close> (the word \<open>2^63\<close>).
\<close>

theorem C7_out_of_range_counterexample:
  "snd (ParseUint ''18446744073709551616'') = Some ErrRange \<and>
   parseDynamoUint64 (Some (AttributeValueMemberN ''18446744073709551616'')) =
     Returned 18446744073709551615 \<and>
   snd (ParseInt ''-9223372036854775809'') = Some ErrRange \<and>
   parseDynamoInt64 (Some (AttributeValueMemberN ''-9223372036854775809'')) =
     Returned 9223372036854775808 \<and>
   GetLatestState sample_runtime sample_store
       (sample_backend ''PK'' [''acct-42'' \<mapsto> malformed_item]) ''acct-42'' =
     Returned (Some \<lparr>pb_PersistenceId = ''acct-42'', pb_VersionNumber = 18446744073709551615,
                     pb_ResultingState = Some sample_payload,
                     pb_Timestamp = 9223372036854775808, pb_Shard = 0\<rparr>, None)"
  by code_simp

text \<open>
  C7, amended. The decoders never propagate the error of the parse: on a number-typed
  attribute they return the value that the parse hands back with its error, and
  \<^verbatim>\<open>GetLatestState\<close> on a found item of the expected types whose payload decodes yields a
  record with exactly these values and a nil error. By the text, that value is
  \<^item> for the unsigned fields: 0 on a syntax error, which any text with a sign is, and
    \<open>2^64 - 1\<close> when the magnitude exceeds 64 bits;
  \<^item> for the timestamp: 0 on a syntax error and, on text without one, \<open>2^63 - 1\<close> when
    there is no minus sign and the magnitude is at least \<open>2^63\<close>, and \<open>- 2^63\<close> when there
    is a minus sign and the magnitude exceeds \<open>2^63\<close>.
  Every other text is parsed without an error, to its decimal value.
\<close>

theorem C7_parse_errors_not_propagated:
  assumes "client d = Some c"
    and "GetItem be tableName (GetLatestState_key persistenceID) = (Some it, None)"
    and "map_of it ''VersionNumber'' = Some (AttributeValueMemberN v)"
    and "map_of it ''StatePayload'' = Some (AttributeValueMemberB p)"
    and "map_of it ''StateManifest'' = Some (AttributeValueMemberS m)"
    and "map_of it ''Timestamp'' = Some (AttributeValueMemberN t)"
    and "map_of it ''ShardNumber'' = Some (AttributeValueMemberN s)"
    and "toProto rt m p = (st, None)"
  shows "GetLatestState rt d be persistenceID =
           Returned (Some \<lparr>pb_PersistenceId = persistenceID,
                           pb_VersionNumber = fst (ParseUint v),
                           pb_ResultingState = st,
                           pb_Timestamp = fst (ParseInt t),
                           pb_Shard = fst (ParseUint s)\<rparr>, None) \<and>
         (\<forall>x. parseDynamoUint64 (Some (AttributeValueMemberN x)) = Returned (fst (ParseUint x)) \<and>
              parseDynamoInt64 (Some (AttributeValueMemberN x)) = Returned (fst (ParseInt x)) \<and>
              (snd (ParseUint x) = Some ErrSyntax \<longrightarrow> fst (ParseUint x) = 0) \<and>
              (snd (ParseUint x) = Some ErrRange \<longrightarrow> fst (ParseUint x) = maxUint64) \<and>
              (snd (ParseInt x) = Some ErrSyntax \<longrightarrow> fst (ParseInt x) = 0) \<and>
              (snd (ParseInt x) = Some ErrRange \<longrightarrow>
                 sint (fst (ParseInt x)) = 9223372036854775807 \<or>
                 sint (fst (ParseInt x)) = - 9223372036854775808)) \<and>
         unat maxUint64 = 18446744073709551615 \<and>
         (\<forall>x. (uint_syntax_error x \<longrightarrow> ParseUint x = (0, Some ErrSyntax)) \<and>
              (18446744073709551616 \<le> magnitude x \<longrightarrow>
                 ParseUint x = (maxUint64, Some ErrRange)) \<and>
              (\<not> uint_syntax_error x \<and> magnitude x < 18446744073709551616 \<longrightarrow>
                 ParseUint x = (of_nat (magnitude x), None)) \<and>
              uint_syntax_error (CHR ''+'' # x) \<and> uint_syntax_error (CHR ''-'' # x)) \<and>
         (\<forall>x. (int_syntax_error x \<longrightarrow> ParseInt x = (0, Some ErrSyntax)) \<and>
              (\<not> int_syntax_error x \<and> \<not> minus_sign x \<and>
               9223372036854775808 \<le> magnitude (unsigned_part x) \<longrightarrow>
                 ParseInt x = (9223372036854775807, Some ErrRange) \<and>
                 sint (fst (ParseInt x)) = 9223372036854775807) \<and>
              (\<not> int_syntax_error x \<and> minus_sign x \<and>
               9223372036854775808 < magnitude (unsigned_part x) \<longrightarrow>
                 ParseInt x = (9223372036854775808, Some ErrRange) \<and>
                 sint (fst (ParseInt x)) = - 9223372036854775808) \<and>
              (\<not> int_syntax_error x \<and> \<not> minus_sign x \<and>
               magnitude (unsigned_part x) < 9223372036854775808 \<longrightarrow>
                 ParseInt x = (of_nat (magnitude (unsigned_part x)), None) \<and>
                 sint (fst (ParseInt x)) = int (magnitude (unsigned_part x))) \<and>
              (\<not> int_syntax_error x \<and> minus_sign x \<and>
               magnitude (unsigned_part x) \<le> 9223372036854775808 \<longrightarrow>
                 ParseInt x = (- of_nat (magnitude (unsigned_part x)), None) \<and>
                 sint (fst (ParseInt x)) = - int (magnitude (unsigned_part x))))"
proof -
  have r: "GetLatestState rt d be persistenceID =
           Returned (Some \<lparr>pb_PersistenceId = persistenceID,
                           pb_VersionNumber = fst (ParseUint v),
                           pb_ResultingState = st,
                           pb_Timestamp = fst (ParseInt t),
                           pb_Shard = fst (ParseUint s)\<rparr>, None)"
    using assms(3-8)
    by (simp add: GetLatestState_found [OF assms(1,2)] parseDynamoUint64_N parseDynamoInt64_N
        assert_MemberB_def assert_MemberS_def)
  have e: "parseDynamoUint64 (Some (AttributeValueMemberN x)) = Returned (fst (ParseUint x)) \<and>
              parseDynamoInt64 (Some (AttributeValueMemberN x)) = Returned (fst (ParseInt x)) \<and>
              (snd (ParseUint x) = Some ErrSyntax \<longrightarrow> fst (ParseUint x) = 0) \<and>
              (snd (ParseUint x) = Some ErrRange \<longrightarrow> fst (ParseUint x) = maxUint64) \<and>
              (snd (ParseInt x) = Some ErrSyntax \<longrightarrow> fst (ParseInt x) = 0) \<and>
              (snd (ParseInt x) = Some ErrRange \<longrightarrow>
                 sint (fst (ParseInt x)) = 9223372036854775807 \<or>
                 sint (fst (ParseInt x)) = - 9223372036854775808)" for x
    using ParseInt_range [of x]
    by (simp add: parseDynamoUint64_N parseDynamoInt64_N ParseUint_syntax ParseUint_range
        ParseInt_syntax)
  have u: "(uint_syntax_error x \<longrightarrow> ParseUint x = (0, Some ErrSyntax)) \<and>
              (18446744073709551616 \<le> magnitude x \<longrightarrow>
                 ParseUint x = (maxUint64, Some ErrRange)) \<and>
              (\<not> uint_syntax_error x \<and> magnitude x < 18446744073709551616 \<longrightarrow>
                 ParseUint x = (of_nat (magnitude x), None)) \<and>
              uint_syntax_error (CHR ''+'' # x) \<and> uint_syntax_error (CHR ''-'' # x)" for x
    using ParseUint_text_classes [of x] signed_text_uint_syntax_error [of x] by blast
  have E: "\<forall>x. parseDynamoUint64 (Some (AttributeValueMemberN x)) = Returned (fst (ParseUint x)) \<and>
              parseDynamoInt64 (Some (AttributeValueMemberN x)) = Returned (fst (ParseInt x)) \<and>
              (snd (ParseUint x) = Some ErrSyntax \<longrightarrow> fst (ParseUint x) = 0) \<and>
              (snd (ParseUint x) = Some ErrRange \<longrightarrow> fst (ParseUint x) = maxUint64) \<and>
              (snd (ParseInt x) = Some ErrSyntax \<longrightarrow> fst (ParseInt x) = 0) \<and>
              (snd (ParseInt x) = Some ErrRange \<longrightarrow>
                 sint (fst (ParseInt x)) = 9223372036854775807 \<or>
                 sint (fst (ParseInt x)) = - 9223372036854775808)"
    by (rule allI) (rule e)
  have U: "\<forall>x. (uint_syntax_error x \<longrightarrow> ParseUint x = (0, Some ErrSyntax)) \<and>
              (18446744073709551616 \<le> magnitude x \<longrightarrow>
                 ParseUint x = (maxUint64, Some ErrRange)) \<and>
              (\<not> uint_syntax_error x \<and> magnitude x < 18446744073709551616 \<longrightarrow>
                 ParseUint x = (of_nat (magnitude x), None)) \<and>
              uint_syntax_error (CHR ''+'' # x) \<and> uint_syntax_error (CHR ''-'' # x)"
    by (rule allI) (rule u)
  note I = allI [of "\<lambda>x. _ x", OF ParseInt_text_classes]
  show ?thesis
    by (rule conjI [OF r conjI [OF E conjI [OF unat_maxUint64 conjI [OF U I]]]])
qed

theorem C7_parse_errors_witness:
  "GetLatestState sample_runtime sample_store
       (sample_backend ''PK'' [''acct-42'' \<mapsto> malformed_item]) ''acct-42'' =
     Returned (Some \<lparr>pb_PersistenceId = ''acct-42'', pb_VersionNumber = maxUint64,
                     pb_ResultingState = Some sample_payload,
                     pb_Timestamp = 9223372036854775808,
                     pb_Shard = 0\<rparr>, None) \<and>
   uint_syntax_error ''1.5'' \<and>
   18446744073709551616 \<le> magnitude ''18446744073709551616'' \<and>
   minus_sign ''-9223372036854775809'' \<and>
   9223372036854775808 < magnitude (unsigned_part ''-9223372036854775809'') \<and>
   sint (fst (ParseInt ''-9223372036854775809'')) = - 9223372036854775808 \<and>
   ParseUint ''-18446744073709551616'' = (0, Some ErrSyntax) \<and>
   ParseInt ''9223372036854775808'' = (9223372036854775807, Some ErrRange)"
proof -
  let ?be = "sample_backend ''PK'' [''acct-42'' \<mapsto> malformed_item]"
  have a1: "client sample_store = Some (NewFromConfig \<lparr>region = ''us-west-2''\<rparr>)"
    by (simp add: sample_store_def)
  have a2: "GetItem ?be tableName (GetLatestState_key ''acct-42'') = (Some malformed_item, None)"
    by (simp add: GetItem_def sample_backend_def GetLatestState_key_def)
  have a3: "map_of malformed_item ''VersionNumber'' =
      Some (AttributeValueMemberN ''18446744073709551616'')"
    by (simp add: malformed_item_def typed_item_def)
  have a4: "map_of malformed_item ''StatePayload'' =
      Some (AttributeValueMemberB (fst (sample_Marshal (Some sample_payload))))"
    by (simp add: malformed_item_def typed_item_def)
  have a5: "map_of malformed_item ''StateManifest'' = Some (AttributeValueMemberS Any_FullName)"
    by (simp add: malformed_item_def typed_item_def)
  have a6: "map_of malformed_item ''Timestamp'' =
      Some (AttributeValueMemberN ''-9223372036854775809'')"
    by (simp add: malformed_item_def typed_item_def)
  have a7: "map_of malformed_item ''ShardNumber'' = Some (AttributeValueMemberN ''1.5'')"
    by (simp add: malformed_item_def typed_item_def)
  have a8: "toProto sample_runtime Any_FullName (fst (sample_Marshal (Some sample_payload))) =
      (Some sample_payload, None)"
    by code_simp
  have e1: "uint_syntax_error ''1.5''" by (simp add: uint_syntax_error_def magnitude_def is_digit_def)
  have e2: "18446744073709551616 \<le> magnitude ''18446744073709551616''" by (simp add: magnitude_def is_digit_def)
  have e3: "\<not> int_syntax_error ''-9223372036854775809''" by (simp add: int_syntax_error_def uint_syntax_error_def unsigned_part_def magnitude_def is_digit_def)
  have e4: "minus_sign ''-9223372036854775809''" by (simp add: minus_sign_def)
  have e5: "9223372036854775808 < magnitude (unsigned_part ''-9223372036854775809'')"
    by (simp add: unsigned_part_def magnitude_def is_digit_def)
  have e6: "\<not> int_syntax_error ''9223372036854775808''" by (simp add: int_syntax_error_def uint_syntax_error_def unsigned_part_def magnitude_def is_digit_def)
  have e7: "\<not> minus_sign ''9223372036854775808''" by (simp add: minus_sign_def)
  have e8: "9223372036854775808 \<le> magnitude (unsigned_part ''9223372036854775808'')"
    by (simp add: unsigned_part_def magnitude_def is_digit_def)
  note th = C7_parse_errors_not_propagated [OF a1 a2 a3 a4 a5 a6 a7 a8]
  from th have r: "GetLatestState sample_runtime sample_store ?be ''acct-42'' =
           Returned (Some \<lparr>pb_PersistenceId = ''acct-42'',
                           pb_VersionNumber = fst (ParseUint ''18446744073709551616''),
                           pb_ResultingState = Some sample_payload,
                           pb_Timestamp = fst (ParseInt ''-9223372036854775809''),
                           pb_Shard = fst (ParseUint ''1.5'')\<rparr>, None)"
    by blast
  from th have u: "\<And>x. uint_syntax_error x \<longrightarrow> ParseUint x = (0, Some ErrSyntax)"
    and ur: "\<And>x. 18446744073709551616 \<le> magnitude x \<longrightarrow> ParseUint x = (maxUint64, Some ErrRange)"
    and us: "\<And>x. uint_syntax_error (CHR ''-'' # x)"
    and im: "\<And>x. \<not> int_syntax_error x \<and> minus_sign x \<and>
               9223372036854775808 < magnitude (unsigned_part x) \<longrightarrow>
                 ParseInt x = (9223372036854775808, Some ErrRange) \<and>
                 sint (fst (ParseInt x)) = - 9223372036854775808"
    and ip: "\<And>x. \<not> int_syntax_error x \<and> \<not> minus_sign x \<and>
               9223372036854775808 \<le> magnitude (unsigned_part x) \<longrightarrow>
                 ParseInt x = (9223372036854775807, Some ErrRange) \<and>
                 sint (fst (ParseInt x)) = 9223372036854775807"
    by blast+
  from u e1 have z: "ParseUint ''1.5'' = (0, Some ErrSyntax)" by blast
  from ur e2 have mx: "ParseUint ''18446744073709551616'' = (maxUint64, Some ErrRange)" by blast
  from im e3 e4 e5 have mn: "ParseInt ''-9223372036854775809'' = (9223372036854775808, Some ErrRange)"
    and sn: "sint (fst (ParseInt ''-9223372036854775809'')) = - 9223372036854775808"
    by blast+
  from u us [of "''18446744073709551616''"]
  have sg: "ParseUint ''-18446744073709551616'' = (0, Some ErrSyntax)" by blast
  from ip e6 e7 e8
  have pl: "ParseInt ''9223372036854775808'' = (9223372036854775807, Some ErrRange)" by blast
  show ?thesis using r e1 e2 e4 e5 sn sg pl by (simp add: z mx mn)
qed

text \<open>
  C8. On a found item, \<^verbatim>\<open>GetLatestState\<close> returns (a record or an error) exactly when every
  one of the five attributes is present with the type the read path asserts; on any
  other found item it panics with a failed type assertion. Such items exist: the item
  that \<^verbatim>\<open>WriteState\<close> itself builds has a string-typed timestamp.
\<close>

theorem C8_unchecked_assertions_panic:
  assumes "client d = Some c"
    and "GetItem be tableName (GetLatestState_key persistenceID) = (Some it, None)"
  shows "(GetLatestState rt d be persistenceID = Panic InterfaceConversion) = (\<not> expected_types it) \<and>
         ((\<exists>r. GetLatestState rt d be persistenceID = Returned r) = expected_types it)"
  using GetLatestState_typed_returns [OF assms, of rt]
    GetLatestState_untyped_panics [OF assms, of rt]
  by (cases "expected_types it") auto

theorem C8_unchecked_assertions_witness:
  "GetItem (sample_backend ''PK'' [''acct-42'' \<mapsto> written_item]) tableName
      (GetLatestState_key ''acct-42'') = (Some written_item, None) \<and>
   map_of written_item ''Timestamp'' = Some (AttributeValueMemberS ''1000'') \<and>
   \<not> expected_types written_item \<and>
   GetLatestState sample_runtime sample_store
      (sample_backend ''PK'' [''acct-42'' \<mapsto> written_item]) ''acct-42'' =
     Panic InterfaceConversion \<and>
   map_of item_without_payload ''StatePayload'' = None \<and>
   GetLatestState sample_runtime sample_store
      (sample_backend ''PK'' [''acct-42'' \<mapsto> item_without_payload]) ''acct-42'' =
     Panic InterfaceConversion"
proof -
  let ?be = "sample_backend ''PK'' [''acct-42'' \<mapsto> written_item]"
  let ?be' = "sample_backend ''PK'' [''acct-42'' \<mapsto> item_without_payload]"
  have a1: "client sample_store = Some (NewFromConfig \<lparr>region = ''us-west-2''\<rparr>)"
    by (simp add: sample_store_def)
  have a2: "GetItem ?be tableName (GetLatestState_key ''acct-42'') = (Some written_item, None)"
    by (simp add: GetItem_def sample_backend_def GetLatestState_key_def)
  have a3: "map_of written_item ''Timestamp'' = Some (AttributeValueMemberS ''1000'')"
    by code_simp
  have a4: "\<not> expected_types written_item"
    using a3 by (simp add: expected_types_def)
  have b2: "GetItem ?be' tableName (GetLatestState_key ''acct-42'') =
      (Some item_without_payload, None)"
    by (simp add: GetItem_def sample_backend_def GetLatestState_key_def)
  have b3: "map_of item_without_payload ''StatePayload'' = None"
    by (simp add: item_without_payload_def typed_item_def)
  have b4: "\<not> expected_types item_without_payload"
    using b3 by (simp add: expected_types_def)
  show ?thesis
    using a2 a3 a4 b3 b4
      C8_unchecked_assertions_panic [OF a1 a2, of sample_runtime]
      C8_unchecked_assertions_panic [OF a1 b2, of sample_runtime]
    by simp
qed

text \<open>
  C9. Whatever a \<^verbatim>\<open>WriteState\<close> of a state leaves as the stored state of the service, a
  second \<^verbatim>\<open>WriteState\<close> of the same state on it leaves the same stored state, with the same
  result.
\<close>

theorem C9_WriteState_idempotent:
  assumes "WriteState rt d be state = (be', r)"
  shows "WriteState rt d be' state = (be', r)"
proof (cases "client d")
  case None
  with assms show ?thesis by (simp add: WriteState_def Let_def)
next
  case (Some c)
  obtain b e where p: "PutItem be tableName (WriteState_item rt state) = (b, e)"
    by (cases "PutItem be tableName (WriteState_item rt state)")
  with assms Some have "b = be'"
    by (auto simp: WriteState_def Let_def split: option.splits)
  with p have "PutItem be' tableName (WriteState_item rt state) = (be', e)"
    by (simp add: PutItem_twice)
  with assms Some p show ?thesis
    by (auto simp: WriteState_def Let_def split: option.splits)
qed

theorem C9_WriteState_idempotent_witness:
  "WriteState sample_runtime sample_store (sample_backend ''PersistenceID'' Map.empty)
       (Some sample_state) =
     (sample_backend ''PersistenceID'' [''acct-42'' \<mapsto> written_item], Returned None) \<and>
   WriteState sample_runtime sample_store
       (sample_backend ''PersistenceID'' [''acct-42'' \<mapsto> written_item]) (Some sample_state) =
     (sample_backend ''PersistenceID'' [''acct-42'' \<mapsto> written_item], Returned None)"
proof -
  have w: "WriteState sample_runtime sample_store (sample_backend ''PersistenceID'' Map.empty)
       (Some sample_state) =
     (sample_backend ''PersistenceID'' [''acct-42'' \<mapsto> written_item], Returned None)"
    by (simp add: WriteState_stores [where c = "NewFromConfig \<lparr>region = ''us-west-2''\<rparr>"
          and t = "\<lparr>key_attr = ''PersistenceID'', rows = Map.empty\<rparr>"]
        sample_store_def sample_backend_def written_item_def GetPersistenceId_def sample_state_def)
  show ?thesis
    using w C9_WriteState_idempotent [OF w] by simp
qed

text \<open>
  C10. The error of the serializer has no part in \<^verbatim>\<open>WriteState\<close>: the call does what it
  does with a serializer that hands back the same bytes and no error, and the payload
  attribute of the item is whatever bytes the serializer handed back. When the
  serializer fails and the service accepts the item, the write returns a nil error and
  the stored item holds those bytes.
\<close>

theorem C10_Marshal_error_discarded:
  "WriteState (rt\<lparr>Marshal := (\<lambda>m. (fst (Marshal rt m), None))\<rparr>) d be state =
     WriteState rt d be state \<and>
   map_of (WriteState_item rt state) ''StatePayload'' =
     Some (AttributeValueMemberB (fst (Marshal rt (GetResultingState state)))) \<and>
   (\<forall>c t b err.
      Marshal rt (GetResultingState state) = (b, Some err) \<and> client d = Some c \<and>
      reachable be \<and> tables be tableName = Some t \<and> key_attr t = ''PersistenceID'' \<longrightarrow>
      (\<exists>be' t' it. WriteState rt d be state = (be', Returned None) \<and>
         tables be' tableName = Some t' \<and> rows t' (GetPersistenceId state) = Some it \<and>
         map_of it ''StatePayload'' = Some (AttributeValueMemberB b)))"
proof -
  have 1: "WriteState (rt\<lparr>Marshal := (\<lambda>m. (fst (Marshal rt m), None))\<rparr>) d be state =
     WriteState rt d be state"
    by (simp add: WriteState_def WriteState_item_Marshal_error_irrelevant)
  have 2: "map_of (WriteState_item rt state) ''StatePayload'' =
     Some (AttributeValueMemberB (fst (Marshal rt (GetResultingState state))))"
    by (simp add: WriteState_item_def Let_def)
  have 3: "\<exists>be' t' it. WriteState rt d be state = (be', Returned None) \<and>
         tables be' tableName = Some t' \<and> rows t' (GetPersistenceId state) = Some it \<and>
         map_of it ''StatePayload'' = Some (AttributeValueMemberB b)"
    if "Marshal rt (GetResultingState state) = (b, Some err)" "client d = Some c"
      "reachable be" "tables be tableName = Some t" "key_attr t = ''PersistenceID''"
    for c t b err
    using that 2 by (simp add: WriteState_stores [OF that(2-5)])
  show ?thesis using 1 2 3 by blast
qed

theorem C10_Marshal_error_discarded_witness:
  "Marshal failing_runtime (GetResultingState (Some sample_state)) = ([], Some InvalidUTF8) \<and>
   snd (WriteState failing_runtime sample_store (sample_backend ''PersistenceID'' Map.empty)
          (Some sample_state)) = Returned None \<and>
   (\<exists>t' it. tables (fst (WriteState failing_runtime sample_store
                 (sample_backend ''PersistenceID'' Map.empty) (Some sample_state))) tableName = Some t' \<and>
        rows t' ''acct-42'' = Some it \<and>
        map_of it ''StatePayload'' = Some (AttributeValueMemberB []))"
proof -
  let ?be = "sample_backend ''PersistenceID'' Map.empty"
  have m: "Marshal failing_runtime (GetResultingState (Some sample_state)) = ([], Some InvalidUTF8)"
    by (simp add: failing_runtime_def)
  have c: "client sample_store = Some (NewFromConfig \<lparr>region = ''us-west-2''\<rparr>)"
    by (simp add: sample_store_def)
  have r: "reachable ?be" by (simp add: sample_backend_def)
  have t: "tables ?be tableName = Some \<lparr>key_attr = ''PersistenceID'', rows = Map.empty\<rparr>"
    by (simp add: sample_backend_def)
  have k: "key_attr \<lparr>key_attr = ''PersistenceID'', rows = Map.empty\<rparr> = ''PersistenceID''"
    by simp
  have p: "GetPersistenceId (Some sample_state) = ''acct-42''"
    by (simp add: GetPersistenceId_def sample_state_def)
  from C10_Marshal_error_discarded [of failing_runtime sample_store ?be "Some sample_state"]
    m c r t k
  have "\<exists>be' t' it. WriteState failing_runtime sample_store ?be (Some sample_state) =
          (be', Returned None) \<and>
         tables be' tableName = Some t' \<and>
         rows t' (GetPersistenceId (Some sample_state)) = Some it \<and>
         map_of it ''StatePayload'' = Some (AttributeValueMemberB [])"
    by blast
  with m p show ?thesis by auto
qed

end
